theory Spec2Isabelle
  imports Complex_Main "HOL-Library.AList"
begin

section \<open>Values\<close>

text \<open>
  The builders of \<^verbatim>\<open>create_objects.py\<close> read the rows of a spreadsheet and hand
  numbers, time series and dictionaries to the constructors of the solver library.
  A float is a real number or one of the three special values; comparison with
  \<open>NaN\<close> is false, as in Python. Arithmetic on finite cells is exact (real numbers).
\<close>

datatype pyfloat = NaN | NInf | Fin real | PInf

fun pf_less :: "pyfloat \<Rightarrow> pyfloat \<Rightarrow> bool" where
  "pf_less NaN y = False"
| "pf_less x NaN = False"
| "pf_less NInf NInf = False"
| "pf_less NInf y = True"
| "pf_less (Fin a) (Fin b) = (a < b)"
| "pf_less (Fin a) PInf = True"
| "pf_less (Fin a) NInf = False"
| "pf_less PInf y = False"

text \<open>Truth value of a numeric cell (\<^verbatim>\<open>if b['active']:\<close>): everything but zero.\<close>

definition truthy :: "pyfloat \<Rightarrow> bool" where
  "truthy x = (x \<noteq> Fin 0)"

text \<open>Division of numpy floats: no exception, a special value instead.\<close>

fun pf_div :: "pyfloat \<Rightarrow> pyfloat \<Rightarrow> pyfloat" where
  "pf_div NaN y = NaN"
| "pf_div x NaN = NaN"
| "pf_div (Fin a) (Fin b) =
     (if b = 0 then (if a = 0 then NaN else if 0 < a then PInf else NInf)
      else Fin (a / b))"
| "pf_div (Fin a) PInf = Fin 0"
| "pf_div (Fin a) NInf = Fin 0"
| "pf_div PInf (Fin b) = (if b < 0 then NInf else PInf)"
| "pf_div NInf (Fin b) = (if b < 0 then PInf else NInf)"
| "pf_div PInf y = NaN"
| "pf_div NInf y = NaN"

fun pf_scale :: "real \<Rightarrow> pyfloat \<Rightarrow> pyfloat" where
  "pf_scale c (Fin a) = Fin (c * a)"
| "pf_scale c NaN = NaN"
| "pf_scale c PInf = (if c = 0 then NaN else if 0 < c then PInf else NInf)"
| "pf_scale c NInf = (if c = 0 then NaN else if 0 < c then NInf else PInf)"

datatype error =
    SystemError string
  | KeyError string
  | UnboundLocalError string
  | ZeroDivisionError

datatype pyval = Num pyfloat | Series "pyfloat list"

type_synonym kwargs = "(string \<times> pyval) list"

text \<open>
  A dictionary literal \<^verbatim>\<open>{k1: v1, k2: v2}\<close>: a later entry with an equal key
  replaces the value of the earlier one and keeps its place.
\<close>

definition py_dict :: "('k \<times> 'v) list \<Rightarrow> ('k \<times> 'v) list" where
  "py_dict kvs = fold (\<lambda>kv d. AList.update (fst kv) (snd kv) d) kvs []"


section \<open>Objects of the solver library\<close>

text \<open>
  \<^verbatim>\<open>solph.Investment\<close>, \<^verbatim>\<open>solph.Flow\<close>, \<^verbatim>\<open>solph.Bus\<close> and the
  components are constructors of an external library; an object is the record of the
  arguments it was built from. A keyword the call does not give is \<open>None\<close>. A bus is
  known by its label: every bus is reached through the dictionary \<open>busd\<close>, under
  the key that is its label.
\<close>

record investment =
  ep_costs :: real
  periodical_constraint_costs :: "real option"
  minimum :: real
  maximum :: pyfloat
  existing :: real
  nonconvex :: "bool option"
  offset :: "real option"

record flow =
  flow_investment :: "investment option"
  flow_kwargs :: kwargs

datatype bus = Bus string

type_synonym flows = "(bus \<times> flow) list"

datatype node =
    NBus bus
  | Sink string flows
  | Source string flows
  | Transformer string flows flows "(bus \<times> pyval) list"
  | GenericCHP string flows flows flows kwargs
  | GenericStorage string flows flows kwargs investment
  | Link string flows flows "((bus \<times> bus) \<times> pyval) list"

type_synonym busd = "string \<rightharpoonup> bus"

definition lookup :: "busd \<Rightarrow> string \<Rightarrow> error + bus" where
  "lookup d k = (case d k of None \<Rightarrow> Inl (KeyError k) | Some b \<Rightarrow> Inr b)"

text \<open>
  The closing loop of every builder,
  \<^verbatim>\<open>for i in range(len(xs)): nodes.append(xs[i])\<close>.
\<close>

definition append_all :: "node list \<Rightarrow> node list \<Rightarrow> node list" where
  "append_all xs nodes = fold (\<lambda>i ns. ns @ [xs ! i]) [0..<length xs] nodes"

section \<open>The rows of the scenario workbook\<close>

text \<open>
  A row is a record of the columns the builders read; a field is named after its
  column. Flags (\<^verbatim>\<open>active\<close>, \<^verbatim>\<open>fixed\<close>, \<^verbatim>\<open>excess\<close>, \<^verbatim>\<open>shortage\<close>,
  \<^verbatim>\<open>Non-Convex Investment\<close>) are numeric cells, labels and categories are strings,
  costs and capacities are finite numbers. Columns that only parametrise a routine of an
  external library (module and turbine models, orientation, tank geometry, ...) are not
  fields: the result of that routine for the row is a component of the environment below.
\<close>

record bus_row =
  b_label :: string
  b_active :: pyfloat
  b_excess :: pyfloat
  b_shortage :: pyfloat
  b_excess_costs :: real
  b_excess_constraint_costs :: real
  b_shortage_costs :: real
  b_shortage_constraint_costs :: real

record source_row =
  so_label :: string
  so_active :: pyfloat
  so_fixed :: pyfloat
  so_technology :: string
  so_output :: string
  so_input :: string
  so_periodical_costs :: real
  so_periodical_constraint_costs :: real
  so_min_investment :: real
  so_max_investment :: real
  so_existing :: real
  so_nonconvex :: pyfloat
  so_fix_investment_costs :: real
  so_variable_costs :: real
  so_variable_constraint_costs :: real
  so_conversion_factor :: real
  so_peripheral_losses :: real
  so_electric_consumption :: real

record sink_row =
  de_label :: string
  de_active :: pyfloat
  de_fixed :: pyfloat
  de_input :: string
  de_load_profile :: string
  de_nominal_value :: real
  de_annual_demand :: real
  de_occupants :: pyfloat

text \<open>Columns of the compression heat transformer (CHT).\<close>

record cht_cols =
  heat_source :: string
  temperature_high :: real
  temperature_low :: real
  quality_grade :: real
  area :: real
  probe_length :: real
  heat_extraction :: real
  min_borehole_area :: real
  temp_threshold_icing :: real
  factor_icing :: real

text \<open>
  Columns of the generic CHP. \<^verbatim>\<open>genericchp_transformer\<close> reads the emission
  factor of the second output from the column
  \<^verbatim>\<open>variable output constraint costs 2/(CU/kWh)\<close>, spelled without the blank
  that the generic transformer's column has: it is a column of its own.
\<close>

record chp_cols =
  share_flue_gas_max :: real
  share_flue_gas_min :: real
  p_max_wo_dh :: real
  p_min_wo_dh :: real
  eta_el_max_wo_dh :: real
  eta_el_min_wo_dh :: real
  q_cw_min :: real
  power_loss_index :: real
  back_pressure :: pyfloat
  chp_var_output_constraint_costs2 :: real

record tf_row =
  tf_label :: string
  tf_active :: pyfloat
  tf_type :: string
  tf_mode :: string
  tf_input :: string
  tf_output :: string
  tf_output2 :: string
  tf_efficiency :: real
  tf_efficiency2 :: real
  tf_var_input_costs :: real
  tf_var_input_constraint_costs :: real
  tf_var_output_costs :: real
  tf_var_output_constraint_costs :: real
  tf_var_output_costs2 :: real
  tf_var_output_constraint_costs2 :: real
  tf_periodical_costs :: real
  tf_periodical_constraint_costs :: real
  tf_min_investment :: real
  tf_max_investment :: real
  tf_existing :: real
  tf_nonconvex :: pyfloat
  tf_fix_investment_costs :: real
  tf_abs_el_conversion_factor :: real
  tf_cht :: cht_cols
  tf_chp :: chp_cols

record storage_row =
  s_label :: string
  s_active :: pyfloat
  s_type :: string
  s_bus :: string
  s_existing :: real
  s_min_investment :: real
  s_max_investment :: real
  s_periodical_costs :: real
  s_periodical_constraint_costs :: real
  s_nonconvex :: pyfloat
  s_fix_investment_costs :: real
  s_input_capacity_ratio :: real
  s_output_capacity_ratio :: real
  s_capacity_loss :: real
  s_efficiency_inflow :: real
  s_efficiency_outflow :: real
  s_capacity_min :: real
  s_capacity_max :: real
  s_var_input_costs :: real
  s_var_output_costs :: real
  s_var_input_constraint_costs :: real
  s_var_output_constraint_costs :: real

record link_row =
  link_label :: string
  link_active :: pyfloat
  link_directed :: string
  link_bus_1 :: string
  link_bus_2 :: string
  link_periodical_costs :: real
  link_periodical_constraint_costs :: real
  link_min_investment :: real
  link_max_investment :: real
  link_existing :: real
  link_nonconvex :: pyfloat
  link_fix_investment_costs :: real
  link_var_output_costs :: real
  link_var_constraint_costs :: real
  link_efficiency :: real

section \<open>The environment: sheets, weather data and external routines\<close>

text \<open>
  Everything a builder reads besides its table: the sheet \<^verbatim>\<open>time_series\<close> (a
  column per name), the first row of the sheet \<^verbatim>\<open>energysystem\<close>, the weather
  file, and the results of the routines of feedinlib, oemof.thermal, demandlib and
  richardsonpy, which are not part of this repository.
\<close>

record env =
  time_series :: "string \<rightharpoonup> pyfloat list"
  temp_resolution :: string
  periods :: int
  pv_feedin :: "source_row \<Rightarrow> pyfloat list"
  windpower_feedin :: "source_row \<Rightarrow> pyfloat list"
  flat_plate_collectors_heat :: "source_row \<Rightarrow> pyfloat list"
  csp_collector_heat :: "source_row \<Rightarrow> pyfloat list"
  heat_slp_profile :: "sink_row \<Rightarrow> pyfloat list"
  elec_slp_profile :: "sink_row \<Rightarrow> pyfloat list"
  loadcurve :: "pyfloat \<Rightarrow> real \<Rightarrow> real list"
  temperature :: "real list"
  ground_temp :: "real list"
  groundwater_temp :: "real list"
  water_temp :: "real list"
  calc_cops :: "real list \<Rightarrow> real list \<Rightarrow> real \<Rightarrow> real option \<Rightarrow> real option
                 \<Rightarrow> string \<Rightarrow> real list"
  q_dots_evap :: "tf_row \<Rightarrow> real list"
  q_dots_gen :: "tf_row \<Rightarrow> real list"
  calculate_losses :: "storage_row \<Rightarrow> pyval \<times> pyval \<times> pyval"

section \<open>Builder state and exceptions\<close>

text \<open>
  A builder method changes the list of created nodes and the bus dictionary of its
  instance, and may raise. It is a function from the state to the state at its exit
  together with the exception, if one was raised: what was appended before a
  \<^verbatim>\<open>raise\<close> stays appended.
\<close>

record bstate =
  st_nodes :: "node list"
  st_busd :: busd

type_synonym builder = "bstate \<Rightarrow> error option \<times> bstate"

definition append_node :: "node \<Rightarrow> builder" where
  "append_node n st = (None, st\<lparr>st_nodes := st_nodes st @ [n]\<rparr>)"

definition raise :: "error \<Rightarrow> builder" where
  "raise e st = (Some e, st)"

definition and_then :: "builder \<Rightarrow> builder \<Rightarrow> builder" where
  "and_then f g st = (case f st of (Some e, st1) \<Rightarrow> (Some e, st1) | (None, st1) \<Rightarrow> g st1)"

text \<open>
  \<^verbatim>\<open>for i, r in table.iterrows(): body\<close>: the rows in order, up to the first
  exception.
\<close>

fun for_rows :: "('r \<Rightarrow> builder) \<Rightarrow> 'r list \<Rightarrow> builder" where
  "for_rows body [] st = (None, st)"
| "for_rows body (r # rs) st =
     (case body r st of
        (Some e, st1) \<Rightarrow> (Some e, st1)
      | (None, st1) \<Rightarrow> for_rows body rs st1)"

section \<open>The bus table: \<^verbatim>\<open>buses\<close>\<close>

text \<open>
  The body of the loop over the rows of the sheet \<^verbatim>\<open>buses\<close>. The state is the
  shared list \<open>nodes\<close> and the dictionary \<open>busd\<close> under construction.
  \<^verbatim>\<open>busd[b['label']]\<close> is read right after it was stored, so it is the bus of this
  row. Nothing in the loop raises. Logging is left out, here and below.
\<close>

definition excess_sink :: "bus_row \<Rightarrow> bus \<Rightarrow> node" where
  "excess_sink b bus =
     Sink (b_label b @ ''_excess'')
       (py_dict [(bus, \<lparr>flow_investment = None,
          flow_kwargs = [(''variable_costs'', Num (Fin (b_excess_costs b))),
                         (''emission_factor'', Num (Fin (b_excess_constraint_costs b)))]\<rparr>)])"

definition shortage_source :: "bus_row \<Rightarrow> bus \<Rightarrow> node" where
  "shortage_source b bus =
     Source (b_label b @ ''_shortage'')
       (py_dict [(bus, \<lparr>flow_investment = None,
          flow_kwargs = [(''variable_costs'', Num (Fin (b_shortage_costs b))),
                         (''emission_factor'', Num (Fin (b_shortage_constraint_costs b)))]\<rparr>)])"

definition bus_step :: "bus_row \<Rightarrow> node list \<times> busd \<Rightarrow> node list \<times> busd" where
  "bus_step b st =
     (let nodes = fst st; busd = snd st in
      if truthy (b_active b) then
        (let bus = Bus (b_label b);
             nodes1 = nodes @ [NBus bus];
             busd1 = busd(b_label b \<mapsto> bus);
             nodes2 = (if truthy (b_excess b)
                       then nodes1 @ [excess_sink b bus] else nodes1);
             nodes3 = (if truthy (b_shortage b)
                       then nodes2 @ [shortage_source b bus] else nodes2)
         in (nodes3, busd1))
      else (nodes, busd))"

definition buses :: "bus_row list \<Rightarrow> node list \<Rightarrow> node list \<times> busd" where
  "buses rows nodes = fold bus_step rows (nodes, Map.empty)"

fun is_bus :: "node \<Rightarrow> bool" where
  "is_bus (NBus b) = True"
| "is_bus n = False"

section \<open>The class \<^verbatim>\<open>Sources\<close>\<close>

definition checklist :: "string list" where
  "checklist = [''X'', ''x'', '''', ''0'', ''None'', ''none'', ''nan'']"

text \<open>
  \<^verbatim>\<open>create_source\<close>. The field \<open>so_input\<close> is the cell as \<^verbatim>\<open>str\<close> prints it.
  The dictionary \<^verbatim>\<open>timeseries_args\<close> is unpacked between the keyword
  \<^verbatim>\<open>investment\<close> and the two cost keywords of the flow.
\<close>

definition create_source :: "source_row \<Rightarrow> kwargs \<Rightarrow> bus option \<Rightarrow> builder" where
  "create_source so timeseries_args output st =
     (case (case output of None \<Rightarrow> lookup (st_busd st) (so_output so) | Some b \<Rightarrow> Inr b) of
        Inl e \<Rightarrow> raise e st
      | Inr out \<Rightarrow>
          (let plain = (so_input so \<in> set checklist);
               minimum_v = (if plain then so_min_investment so
                            else so_min_investment so * so_conversion_factor so);
               maximum_v = (if plain then so_max_investment so
                            else so_max_investment so * so_conversion_factor so);
               existing_v = (if plain then so_existing so
                             else so_existing so * so_conversion_factor so)
           in append_node
                (Source (so_label so)
                   (py_dict [(out,
                      \<lparr>flow_investment = Some
                         \<lparr>ep_costs = so_periodical_costs so,
                          periodical_constraint_costs = Some (so_periodical_constraint_costs so),
                          minimum = minimum_v,
                          maximum = Fin maximum_v,
                          existing = existing_v,
                          nonconvex = Some (so_nonconvex so = Fin 1),
                          offset = Some (so_fix_investment_costs so)\<rparr>,
                       flow_kwargs = timeseries_args @
                         [(''variable_costs'', Num (Fin (so_variable_costs so))),
                          (''emission_factor'', Num (Fin (so_variable_constraint_costs so)))]\<rparr>)]))
                st))"

definition commodity_source :: "source_row \<Rightarrow> builder" where
  "commodity_source so = create_source so [(''min'', Num (Fin 0)), (''max'', Num (Fin 1))] None"

definition fixed_error :: "string \<Rightarrow> error" where
  "fixed_error label = SystemError (label @ '' Error in fixed attribute'')"

text \<open>
  Each of the four methods below first computes the dictionary \<^verbatim>\<open>args\<close> (or raises)
  and then calls \<^verbatim>\<open>create_source\<close> with it; the computation of \<^verbatim>\<open>args\<close> is a
  function of its own here. A column missing from the sheet \<^verbatim>\<open>time_series\<close> is a
  \<^verbatim>\<open>KeyError\<close>.
\<close>

definition column :: "(string \<rightharpoonup> pyfloat list) \<Rightarrow> string \<Rightarrow> error + pyfloat list" where
  "column sheet k = (case sheet k of None \<Rightarrow> Inl (KeyError k) | Some xs \<Rightarrow> Inr xs)"

definition timeseries_source_args :: "env \<Rightarrow> source_row \<Rightarrow> error + kwargs" where
  "timeseries_source_args env so =
     (if so_fixed so = Fin 1 then
        (case column (time_series env) (so_label so @ ''.fix'') of
           Inl e \<Rightarrow> Inl e
         | Inr f \<Rightarrow> Inr [(''fix'', Series f)])
      else if so_fixed so = Fin 0 then
        (case column (time_series env) (so_label so @ ''.min'') of
           Inl e \<Rightarrow> Inl e
         | Inr mn \<Rightarrow>
             (case column (time_series env) (so_label so @ ''.max'') of
                Inl e \<Rightarrow> Inl e
              | Inr mx \<Rightarrow> Inr [(''min'', Series mn), (''max'', Series mx)]))
      else Inl (fixed_error (so_label so)))"

definition with_args :: "error + kwargs \<Rightarrow> (kwargs \<Rightarrow> builder) \<Rightarrow> builder" where
  "with_args a f st = (case a of Inl e \<Rightarrow> raise e st | Inr args \<Rightarrow> f args st)"

definition timeseries_source :: "env \<Rightarrow> source_row \<Rightarrow> builder" where
  "timeseries_source env so =
     with_args (timeseries_source_args env so) (\<lambda>args. create_source so args None)"

text \<open>
  The loop of \<^verbatim>\<open>pv_source\<close> that prepares the feed-in: at each index the value is
  raised to 0, lowered to 1, and then \<^verbatim>\<open>fillna(0)\<close> is applied to the whole
  series. The series keeps its length, so every index of the loop is in range.
\<close>

definition fillna :: "real \<Rightarrow> pyfloat list \<Rightarrow> pyfloat list" where
  "fillna v xs = map (\<lambda>x. if x = NaN then Fin v else x) xs"

definition pv_clip_step :: "nat \<Rightarrow> pyfloat list \<Rightarrow> pyfloat list" where
  "pv_clip_step i feedin =
     (let f1 = (if pf_less (feedin ! i) (Fin 0) then feedin[i := Fin 0] else feedin);
          f2 = (if pf_less (Fin 1) (f1 ! i) then f1[i := Fin 1] else f1)
      in fillna 0 f2)"

definition pv_clip :: "pyfloat list \<Rightarrow> pyfloat list" where
  "pv_clip feedin = fold pv_clip_step [0..<length feedin] feedin"

definition pv_source_args :: "env \<Rightarrow> source_row \<Rightarrow> error + kwargs" where
  "pv_source_args env so =
     (let feedin = pv_clip (pv_feedin env so) in
      if so_fixed so = Fin 1 then Inr [(''fix'', Series feedin)]
      else if so_fixed so = Fin 0 then Inr [(''min'', Num (Fin 0)), (''max'', Series feedin)]
      else Inl (fixed_error (so_label so)))"

definition pv_source :: "env \<Rightarrow> source_row \<Rightarrow> builder" where
  "pv_source env so = with_args (pv_source_args env so) (\<lambda>args. create_source so args None)"

definition windpower_source_args :: "env \<Rightarrow> source_row \<Rightarrow> error + kwargs" where
  "windpower_source_args env so =
     (let feedin_wind_scaled = windpower_feedin env so in
      if so_fixed so = Fin 1 then Inr [(''fix'', Series feedin_wind_scaled)]
      else if so_fixed so = Fin 0
        then Inr [(''min'', Num (Fin 0)), (''max'', Series feedin_wind_scaled)]
      else Inl (fixed_error (so_label so)))"

definition windpower_source :: "env \<Rightarrow> source_row \<Rightarrow> builder" where
  "windpower_source env so =
     with_args (windpower_source_args env so) (\<lambda>args. create_source so args None)"

text \<open>
  \<^verbatim>\<open>solar_heat_source\<close>. The variable \<^verbatim>\<open>collectors_heat\<close> is assigned in the
  two technology branches only; where neither is taken, reading it raises. The precalculated
  heat is divided by 1000 and handed on as it is.
\<close>

definition collectors_heat :: "env \<Rightarrow> source_row \<Rightarrow> pyfloat list option" where
  "collectors_heat env so =
     (if so_technology so = ''solar_thermal_flat_plate''
        then Some (map (\<lambda>x. pf_div x (Fin 1000)) (flat_plate_collectors_heat env so))
      else if so_technology so = ''concentrated_solar_power''
        then Some (map (\<lambda>x. pf_div x (Fin 1000)) (csp_collector_heat env so))
      else None)"

definition solar_heat_source_args :: "env \<Rightarrow> source_row \<Rightarrow> error + kwargs" where
  "solar_heat_source_args env so =
     (if so_fixed so = Fin 1 then
        (case collectors_heat env so of
           None \<Rightarrow> Inl (UnboundLocalError ''collectors_heat'')
         | Some h \<Rightarrow> Inr [(''fix'', Series h)])
      else if so_fixed so = Fin 0 then
        (case collectors_heat env so of
           None \<Rightarrow> Inl (UnboundLocalError ''collectors_heat'')
         | Some h \<Rightarrow> Inr [(''min'', Num (Fin 0)), (''max'', Series h)])
      else Inl (fixed_error (so_label so)))"

definition zero_cost_flow :: flow where
  "zero_cost_flow = \<lparr>flow_investment = None, flow_kwargs = [(''variable_costs'', Num (Fin 0))]\<rparr>"

definition collector_transformer :: "source_row \<Rightarrow> builder" where
  "collector_transformer so st =
     (case lookup (st_busd st) (so_label so @ ''_bus'') of
        Inl e \<Rightarrow> raise e st
      | Inr cb \<Rightarrow>
     (case lookup (st_busd st) (so_input so) of
        Inl e \<Rightarrow> raise e st
      | Inr ib \<Rightarrow>
     (case lookup (st_busd st) (so_output so) of
        Inl e \<Rightarrow> raise e st
      | Inr ob \<Rightarrow>
          append_node
            (Transformer (so_label so @ ''_collector'')
               (py_dict [(cb, zero_cost_flow), (ib, zero_cost_flow)])
               (py_dict [(ob, zero_cost_flow)])
               (py_dict
                 [(cb, Num (Fin 1)),
                  (ib, Num (Fin (so_electric_consumption so * (1 - so_peripheral_losses so)))),
                  (ob, Num (Fin (1 - so_peripheral_losses so)))]))
            st)))"

definition solar_heat_source :: "env \<Rightarrow> source_row \<Rightarrow> builder" where
  "solar_heat_source env so st =
     (let col_bus = Bus (so_label so @ ''_bus'');
          st1 = st\<lparr>st_nodes := st_nodes st @ [NBus col_bus],
                   st_busd := (st_busd st)(so_label so @ ''_bus'' \<mapsto> col_bus)\<rparr>
      in and_then
           (with_args (solar_heat_source_args env so)
              (\<lambda>args. create_source so args (Some col_bus)))
           (collector_transformer so) st1)"

text \<open>
  The dispatch of \<^verbatim>\<open>Sources.__init__\<close>. The condition of the last branch is
  \<^verbatim>\<open>so['technology'] == 'solar_thermal_flat_plate' or 'concentrated_solar_power'\<close>:
  the disjunction of a comparison and a string, which counts as true unless it is empty.
\<close>

definition str_truthy :: "string \<Rightarrow> bool" where
  "str_truthy s = (s \<noteq> [])"

definition source_step :: "env \<Rightarrow> source_row \<Rightarrow> builder" where
  "source_step env so st =
     (if truthy (so_active so) then
        (if so_technology so = ''other'' then commodity_source so st
         else if so_technology so = ''photovoltaic'' then pv_source env so st
         else if so_technology so = ''windpower'' then windpower_source env so st
         else if so_technology so = ''timeseries'' then timeseries_source env so st
         else if so_technology so = ''solar_thermal_flat_plate''
                 \<or> str_truthy ''concentrated_solar_power''
           then solar_heat_source env so st
         else (None, st))
      else (None, st))"

text \<open>
  \<^verbatim>\<open>Sources.__init__\<close>: the result is the exception, if any, and the shared list
  \<open>nodes\<close> as the call leaves it. The instance works on a copy of \<open>busd\<close>.
\<close>

definition Sources_init ::
  "env \<Rightarrow> source_row list \<Rightarrow> node list \<Rightarrow> busd \<Rightarrow> error option \<times> node list" where
  "Sources_init env rows nodes busd =
     (case for_rows (source_step env) rows \<lparr>st_nodes = [], st_busd = busd\<rparr> of
        (Some e, st) \<Rightarrow> (Some e, nodes)
      | (None, st) \<Rightarrow> (None, append_all (st_nodes st) nodes))"

section \<open>The class \<^verbatim>\<open>Sinks\<close>\<close>

definition create_sink :: "sink_row \<Rightarrow> kwargs \<Rightarrow> builder" where
  "create_sink de timeseries_args st =
     (case lookup (st_busd st) (de_input de) of
        Inl e \<Rightarrow> raise e st
      | Inr b \<Rightarrow>
          append_node
            (Sink (de_label de)
               (py_dict [(b, \<lparr>flow_investment = None, flow_kwargs = timeseries_args\<rparr>)]))
            st)"

definition unfixed_sink :: "sink_row \<Rightarrow> builder" where
  "unfixed_sink de = create_sink de [(''nominal_value'', Num (Fin (de_nominal_value de)))]"

text \<open>\<^verbatim>\<open>args.update({...})\<close> stores the entries of the literal one after the other.\<close>

definition dict_update :: "('k \<times> 'v) list \<Rightarrow> ('k \<times> 'v) list \<Rightarrow> ('k \<times> 'v) list" where
  "dict_update d kvs = fold (\<lambda>kv d. AList.update (fst kv) (snd kv) d) kvs d"

definition timeseries_sink_args :: "env \<Rightarrow> sink_row \<Rightarrow> error + kwargs" where
  "timeseries_sink_args env de =
     (let args = [(''nominal_value'', Num (Fin (de_nominal_value de)))] in
      if de_fixed de = Fin 0 then
        (case column (time_series env) (de_label de @ ''.min'') of
           Inl e \<Rightarrow> Inl e
         | Inr mn \<Rightarrow>
             (case column (time_series env) (de_label de @ ''.max'') of
                Inl e \<Rightarrow> Inl e
              | Inr mx \<Rightarrow> Inr (dict_update args [(''min'', Series mn), (''max'', Series mx)])))
      else if de_fixed de = Fin 1 then
        (case column (time_series env) (de_label de @ ''.fix'') of
           Inl e \<Rightarrow> Inl e
         | Inr f \<Rightarrow> Inr (dict_update args [(''fix'', Series f)]))
      else Inr args)"

definition timeseries_sink :: "env \<Rightarrow> sink_row \<Rightarrow> builder" where
  "timeseries_sink env de = with_args (timeseries_sink_args env de) (create_sink de)"

text \<open>
  \<^verbatim>\<open>slp_sink\<close>. The data frame \<^verbatim>\<open>demand\<close> gets the column of the load profile
  in the heat branch and in the electricity branch, and has no column otherwise.
\<close>

definition heat_slps :: "string list" where
  "heat_slps = [''efh'', ''mfh'']"

definition heat_slps_commercial :: "string list" where
  "heat_slps_commercial =
     [''gmf'', ''gpd'', ''ghd'', ''gwa'', ''ggb'', ''gko'', ''gbd'', ''gba'',
      ''gmk'', ''gbh'', ''gga'', ''gha'']"

definition electricity_slps :: "string list" where
  "electricity_slps =
     [''h0'', ''g0'', ''g1'', ''g2'', ''g3'', ''g4'', ''g5'', ''g6'', ''l0'', ''l1'', ''l2'']"

definition slp_demand :: "env \<Rightarrow> sink_row \<Rightarrow> string \<rightharpoonup> pyfloat list" where
  "slp_demand env de =
     (if de_load_profile de \<in> set heat_slps_commercial \<or> de_load_profile de \<in> set heat_slps
        then [de_load_profile de \<mapsto> heat_slp_profile env de]
      else if de_load_profile de \<in> set electricity_slps
        then [de_load_profile de \<mapsto> elec_slp_profile env de]
      else Map.empty)"

definition slp_sink_args :: "env \<Rightarrow> sink_row \<Rightarrow> error + kwargs" where
  "slp_sink_args env de =
     (let demand = slp_demand env de;
          args = [(''nominal_value'', Num (Fin (de_annual_demand de)))] in
      if de_fixed de = Fin 1 then
        (case column demand (de_load_profile de) of
           Inl e \<Rightarrow> Inl e
         | Inr p \<Rightarrow> Inr (dict_update args [(''fix'', Series p)]))
      else if de_fixed de = Fin 0 then
        (case column demand (de_load_profile de) of
           Inl e \<Rightarrow> Inl e
         | Inr p \<Rightarrow> Inr (dict_update args [(''max'', Series p)]))
      else Inr args)"

definition slp_sink :: "env \<Rightarrow> sink_row \<Rightarrow> builder" where
  "slp_sink env de = with_args (slp_sink_args env de) (create_sink de)"

text \<open>
  \<^verbatim>\<open>richardson_sink\<close>. The occupancy model and the load generator are external: the
  load curve is a function of the number of occupants and the time step handed to them.
  The quotient \<^verbatim>\<open>annual_demand / richardson_demand\<close> has a numpy float as its
  divisor.
\<close>

definition nb_occ :: "sink_row \<Rightarrow> pyfloat" where
  "nb_occ de = (if pf_less (Fin 5) (de_occupants de) then Fin 5 else de_occupants de)"

definition timestep :: "env \<Rightarrow> error + real" where
  "timestep env =
     (if temp_resolution env = ''H'' then Inr 3600
      else if temp_resolution env = ''h'' then Inr 3600
      else if temp_resolution env = ''min'' then Inr 60
      else if temp_resolution env = ''s'' then Inr 1
      else Inl (SystemError ''Invalid Temporal Resolution''))"

definition richardson_demand :: "real list \<Rightarrow> real \<Rightarrow> real" where
  "richardson_demand load_profile ts = sum_list load_profile * ts / (3600 * 1000)"

definition richardson_nominal_value :: "sink_row \<Rightarrow> real list \<Rightarrow> real \<Rightarrow> pyfloat" where
  "richardson_nominal_value de load_profile ts =
     (let demand_ratio = pf_div (Fin (de_annual_demand de))
                               (Fin (richardson_demand load_profile ts))
      in pf_scale 0.001 demand_ratio)"

definition richardson_sink_args :: "env \<Rightarrow> sink_row \<Rightarrow> error + kwargs" where
  "richardson_sink_args env de =
     (case timestep env of
        Inl e \<Rightarrow> Inl e
      | Inr ts \<Rightarrow>
          (let load_profile = loadcurve env (nb_occ de) ts;
               args = [(''nominal_value'', Num (richardson_nominal_value de load_profile ts))]
           in if de_fixed de = Fin 1
                then Inr (dict_update args [(''fix'', Series (map Fin load_profile))])
              else if de_fixed de = Fin 0
                then Inr (dict_update args [(''max'', Series (map Fin load_profile))])
              else Inr args))"

definition richardson_sink :: "env \<Rightarrow> sink_row \<Rightarrow> builder" where
  "richardson_sink env de = with_args (richardson_sink_args env de) (create_sink de)"

definition slps :: "string list" where
  "slps =
     [''efh'', ''mfh'', ''gmf'', ''gpd'', ''ghd'', ''gwa'', ''ggb'', ''gko'', ''gbd'',
      ''gba'', ''gmk'', ''gbh'', ''gga'', ''gha'', ''h0'', ''g0'', ''g1'', ''g2'',
      ''g3'', ''g4'', ''g5'', ''g6'', ''l0'', ''l1'', ''l2'']"

definition sink_step :: "env \<Rightarrow> sink_row \<Rightarrow> builder" where
  "sink_step env de st =
     (if truthy (de_active de) then
        (if de_load_profile de = ''x'' then unfixed_sink de st
         else if de_load_profile de = ''timeseries'' then timeseries_sink env de st
         else if de_load_profile de \<in> set slps then slp_sink env de st
         else if de_load_profile de = ''richardson'' then richardson_sink env de st
         else (None, st))
      else (None, st))"

definition Sinks_init ::
  "env \<Rightarrow> sink_row list \<Rightarrow> busd \<Rightarrow> node list \<Rightarrow> error option \<times> node list" where
  "Sinks_init env rows busd nodes =
     (case for_rows (sink_step env) rows \<lparr>st_nodes = [], st_busd = busd\<rparr> of
        (Some e, st) \<Rightarrow> (Some e, nodes)
      | (None, st) \<Rightarrow> (None, append_all (st_nodes st) nodes))"

section \<open>The class \<^verbatim>\<open>Transformers\<close>\<close>

definition create_transformer ::
  "tf_row \<Rightarrow> flows \<Rightarrow> flows \<Rightarrow> (bus \<times> pyval) list \<Rightarrow> builder" where
  "create_transformer tf inputs outputs conversion_factors =
     append_node (Transformer (tf_label tf) inputs outputs conversion_factors)"

definition tf_input_flow :: "tf_row \<Rightarrow> flow" where
  "tf_input_flow tf =
     \<lparr>flow_investment = None,
      flow_kwargs = [(''variable_costs'', Num (Fin (tf_var_input_costs tf))),
                     (''emission_factor'', Num (Fin (tf_var_input_constraint_costs tf)))]\<rparr>"

text \<open>
  \<^verbatim>\<open>generic_transformer\<close>. The capacities of the second output are quotients of
  Python floats: a zero efficiency raises before the second bus is looked up.
\<close>

definition generic_output_flow :: "tf_row \<Rightarrow> flow" where
  "generic_output_flow tf =
     \<lparr>flow_investment = Some
        \<lparr>ep_costs = tf_periodical_costs tf,
         periodical_constraint_costs = Some (tf_periodical_constraint_costs tf),
         minimum = tf_min_investment tf,
         maximum = Fin (tf_max_investment tf),
         existing = tf_existing tf,
         nonconvex = Some (tf_nonconvex tf = Fin 1),
         offset = Some (tf_fix_investment_costs tf)\<rparr>,
      flow_kwargs = [(''variable_costs'', Num (Fin (tf_var_output_costs tf))),
                     (''emission_factor'', Num (Fin (tf_var_output_constraint_costs tf)))]\<rparr>"

definition generic_output2_flow :: "tf_row \<Rightarrow> flow" where
  "generic_output2_flow tf =
     \<lparr>flow_investment = Some
        \<lparr>ep_costs = 0,
         periodical_constraint_costs = None,
         minimum = (tf_efficiency2 tf / tf_efficiency tf) * tf_min_investment tf,
         maximum = Fin ((tf_efficiency2 tf / tf_efficiency tf) * tf_max_investment tf),
         existing = (tf_efficiency2 tf / tf_efficiency tf) * tf_existing tf,
         nonconvex = Some (tf_nonconvex tf = Fin 1),
         offset = Some (tf_fix_investment_costs tf)\<rparr>,
      flow_kwargs = [(''variable_costs'', Num (Fin (tf_var_output_costs2 tf))),
                     (''emission_factor'', Num (Fin (tf_var_output_constraint_costs2 tf)))]\<rparr>"

definition generic_outputs ::
  "tf_row \<Rightarrow> busd \<Rightarrow> error + flows \<times> (bus \<times> pyval) list" where
  "generic_outputs tf busd =
     (case lookup busd (tf_output tf) of
        Inl e \<Rightarrow> Inl e
      | Inr ob \<Rightarrow>
          (let outputs = py_dict [(ob, generic_output_flow tf)];
               conversion_factors = py_dict [(ob, Num (Fin (tf_efficiency tf)))]
           in if tf_output2 tf \<notin> set [''None'', ''none'', ''x''] then
                (if tf_efficiency tf = 0 then Inl ZeroDivisionError
                 else (case lookup busd (tf_output2 tf) of
                         Inl e \<Rightarrow> Inl e
                       | Inr ob2 \<Rightarrow>
                           Inr (dict_update outputs [(ob2, generic_output2_flow tf)],
                                dict_update conversion_factors
                                  [(ob2, Num (Fin (tf_efficiency2 tf)))])))
              else Inr (outputs, conversion_factors)))"

definition generic_transformer :: "tf_row \<Rightarrow> builder" where
  "generic_transformer tf st =
     (case generic_outputs tf (st_busd st) of
        Inl e \<Rightarrow> raise e st
      | Inr oc \<Rightarrow>
          (case lookup (st_busd st) (tf_input tf) of
             Inl e \<Rightarrow> raise e st
           | Inr ib \<Rightarrow>
               create_transformer tf (py_dict [(ib, tf_input_flow tf)]) (fst oc) (snd oc) st))"

text \<open>
  \<^verbatim>\<open>compression_heat_transformer\<close>. The suffix \<^verbatim>\<open>temp\<close> is assigned for the two
  modes only. The borehole capacity is a quotient of Python floats.
\<close>

definition mode_temp :: "tf_row \<Rightarrow> error + string" where
  "mode_temp tf =
     (if tf_mode tf = ''heat_pump'' then Inr ''_low_temp''
      else if tf_mode tf = ''chiller'' then Inr ''_high_temp''
      else Inl (UnboundLocalError ''temp''))"

definition heatsource :: "tf_row \<Rightarrow> string \<Rightarrow> error + string \<times> pyfloat" where
  "heatsource tf temp =
     (let c = tf_cht tf in
      if heat_source c = ''Ground'' then
        (if min_borehole_area c = 0 then Inl ZeroDivisionError
         else Inr (tf_label tf @ temp @ ''_ground_source'',
                   Fin (area c * (probe_length c * heat_extraction c / min_borehole_area c))))
      else if heat_source c = ''GroundWater''
        then Inr (tf_label tf @ temp @ ''_groundwater_source'', PInf)
      else if heat_source c = ''Air''
        then Inr (tf_label tf @ temp @ ''_air_source'', PInf)
      else if heat_source c = ''Water''
        then Inr (tf_label tf @ temp @ ''_water_source'', PInf)
      else Inl (SystemError (tf_label tf @ '' Error in heat source attribute'')))"

definition heatsource_node :: "string \<Rightarrow> bus \<Rightarrow> pyfloat \<Rightarrow> node" where
  "heatsource_node label b maximum_v =
     Source label
       (py_dict [(b,
          \<lparr>flow_investment = Some
             \<lparr>ep_costs = 0, periodical_constraint_costs = None, minimum = 0,
              maximum = maximum_v, existing = 0, nonconvex = None, offset = None\<rparr>,
           flow_kwargs = [(''variable_costs'', Num (Fin 0))]\<rparr>)])"

text \<open>
  The loop over the copy of the ambient temperature, for a chiller with air as its heat
  source: \<^verbatim>\<open>if value == temp_low_value: temp_high[index] = temp_low_value + 0.1\<close>.
\<close>

definition air_chiller_temp_high :: "real \<Rightarrow> real list \<Rightarrow> real list" where
  "air_chiller_temp_high temp_low_value temp =
     fold (\<lambda>index temp_high.
             if temp_high ! index = temp_low_value
             then temp_high[index := temp_low_value + 0.1] else temp_high)
       [0..<length temp] temp"

text \<open>
  The series of the heat source: \<^verbatim>\<open>temp_low\<close> of a heat pump, \<^verbatim>\<open>temp_high\<close>
  of a chiller.
\<close>

definition source_temp :: "env \<Rightarrow> tf_row \<Rightarrow> error + real list" where
  "source_temp env tf =
     (let c = tf_cht tf in
      if heat_source c = ''Ground'' then Inr (ground_temp env)
      else if heat_source c = ''GroundWater'' then Inr (groundwater_temp env)
      else if heat_source c = ''Air'' then
        (if tf_mode tf = ''chiller''
         then Inr (air_chiller_temp_high (temperature_low c) (temperature env))
         else Inr (temperature env))
      else if heat_source c = ''Water'' then Inr (water_temp env)
      else Inl (SystemError ''problem with HeatSource''))"

definition cops_hp :: "env \<Rightarrow> tf_row \<Rightarrow> real list \<Rightarrow> real list" where
  "cops_hp env tf src =
     (let c = tf_cht tf in
      if tf_mode tf = ''heat_pump'' then
        calc_cops env [temperature_high c] src (quality_grade c)
          (Some (temp_threshold_icing c)) (Some (factor_icing c)) (tf_mode tf)
      else
        calc_cops env src [temperature_low c] (quality_grade c) None None (tf_mode tf))"

definition cht_output_flow :: "tf_row \<Rightarrow> flow" where
  "cht_output_flow tf =
     \<lparr>flow_investment = Some
        \<lparr>ep_costs = tf_periodical_costs tf,
         periodical_constraint_costs = Some (tf_periodical_constraint_costs tf),
         minimum = tf_min_investment tf,
         maximum = Fin (tf_max_investment tf),
         existing = tf_existing tf,
         nonconvex = None,
         offset = None\<rparr>,
      flow_kwargs = [(''variable_costs'', Num (Fin (tf_var_output_costs tf))),
                     (''emission_factor'', Num (Fin (tf_var_output_constraint_costs tf)))]\<rparr>"

text \<open>
  The two lists of conversion factors, \<^verbatim>\<open>((cop - 1) / cop) / tf['efficiency']\<close> and
  \<^verbatim>\<open>1 / cop\<close> for every COP. The COPs and the efficiency are taken to be Python
  floats, whose division by zero raises.
\<close>

definition cht_conversion_factors :: "tf_row \<Rightarrow> real list \<Rightarrow> error + pyval \<times> pyval" where
  "cht_conversion_factors tf cops =
     (if 0 \<in> set cops \<or> (cops \<noteq> [] \<and> tf_efficiency tf = 0) then Inl ZeroDivisionError
      else Inr (Series (map (\<lambda>cop. Fin (((cop - 1) / cop) / tf_efficiency tf)) cops),
                Series (map (\<lambda>cop. Fin (1 / cop)) cops)))"

definition cht_transformer :: "tf_row \<Rightarrow> string \<Rightarrow> real list \<Rightarrow> builder" where
  "cht_transformer tf temp cops st =
     (case lookup (st_busd st) (tf_input tf) of
        Inl e \<Rightarrow> raise e st
      | Inr ib \<Rightarrow>
     (case lookup (st_busd st) (tf_label tf @ temp @ ''_bus'') of
        Inl e \<Rightarrow> raise e st
      | Inr hb \<Rightarrow>
     (case lookup (st_busd st) (tf_output tf) of
        Inl e \<Rightarrow> raise e st
      | Inr ob \<Rightarrow>
     (case cht_conversion_factors tf cops of
        Inl e \<Rightarrow> raise e st
      | Inr cf \<Rightarrow>
          create_transformer tf
            (py_dict [(ib, tf_input_flow tf), (hb, zero_cost_flow)])
            (py_dict [(ob, cht_output_flow tf)])
            (py_dict [(hb, fst cf), (ib, snd cf)])
            st))))"

definition compression_heat_transformer :: "env \<Rightarrow> tf_row \<Rightarrow> builder" where
  "compression_heat_transformer env tf st =
     (case mode_temp tf of
        Inl e \<Rightarrow> raise e st
      | Inr temp \<Rightarrow>
          (let b = Bus (tf_label tf @ temp @ ''_bus'');
               st1 = st\<lparr>st_nodes := st_nodes st @ [NBus b],
                        st_busd := (st_busd st)(tf_label tf @ temp @ ''_bus'' \<mapsto> b)\<rparr>
           in case heatsource tf temp of
                Inl e \<Rightarrow> raise e st1
              | Inr hs \<Rightarrow>
                  and_then (append_node (heatsource_node (fst hs) b (snd hs)))
                    (\<lambda>st2. case source_temp env tf of
                              Inl e \<Rightarrow> raise e st2
                            | Inr src \<Rightarrow> cht_transformer tf temp (cops_hp env tf src) st2)
                    st1))"

text \<open>
  \<^verbatim>\<open>genericchp_transformer\<close>: every list is the value of a column repeated
  \<^verbatim>\<open>periods\<close> times.
\<close>

definition per_period :: "env \<Rightarrow> real \<Rightarrow> pyval" where
  "per_period env x = Series (replicate (nat (periods env)) (Fin x))"

definition genericchp_transformer :: "env \<Rightarrow> tf_row \<Rightarrow> builder" where
  "genericchp_transformer env tf st =
     (let c = tf_chp tf in
      case lookup (st_busd st) (tf_input tf) of
        Inl e \<Rightarrow> raise e st
      | Inr ib \<Rightarrow>
     (case lookup (st_busd st) (tf_output tf) of
        Inl e \<Rightarrow> raise e st
      | Inr ob \<Rightarrow>
     (case lookup (st_busd st) (tf_output2 tf) of
        Inl e \<Rightarrow> raise e st
      | Inr ob2 \<Rightarrow>
          append_node
            (GenericCHP (tf_label tf)
               (py_dict [(ib,
                  \<lparr>flow_investment = None,
                   flow_kwargs =
                     [(''H_L_FG_share_max'', per_period env (share_flue_gas_max c)),
                      (''H_L_FG_share_min'', per_period env (share_flue_gas_min c)),
                      (''variable_costs'', Num (Fin (tf_var_input_costs tf))),
                      (''emission_factor'', Num (Fin (tf_var_input_constraint_costs tf)))]\<rparr>)])
               (py_dict [(ob,
                  \<lparr>flow_investment = Some
                     \<lparr>ep_costs = tf_periodical_costs tf,
                      periodical_constraint_costs = Some (tf_periodical_constraint_costs tf),
                      minimum = tf_min_investment tf,
                      maximum = Fin (tf_max_investment tf),
                      existing = tf_existing tf,
                      nonconvex = None,
                      offset = None\<rparr>,
                   flow_kwargs =
                     [(''P_max_woDH'', per_period env (p_max_wo_dh c)),
                      (''P_min_woDH'', per_period env (p_min_wo_dh c)),
                      (''Eta_el_max_woDH'', per_period env (eta_el_max_wo_dh c)),
                      (''Eta_el_min_woDH'', per_period env (eta_el_min_wo_dh c)),
                      (''variable_costs'', Num (Fin (tf_var_output_costs tf))),
                      (''emission_factor'', Num (Fin (tf_var_output_constraint_costs tf)))]\<rparr>)])
               (py_dict [(ob2,
                  \<lparr>flow_investment = None,
                   flow_kwargs =
                     [(''Q_CW_min'', per_period env (q_cw_min c)),
                      (''variable_costs'', Num (Fin (tf_var_output_costs2 tf))),
                      (''emission_factor'', Num (Fin (chp_var_output_constraint_costs2 c)))]\<rparr>)])
               [(''Beta'', per_period env (power_loss_index c)),
                (''back_pressure'', Num (back_pressure c))])
            st)))"

text \<open>
  \<^verbatim>\<open>absorption_heat_transformer\<close>. The heat fluxes of evaporator and generator come
  from the external characteristic-equation routines; their quotient is taken here.
\<close>

definition cops_abs :: "env \<Rightarrow> tf_row \<Rightarrow> pyfloat list" where
  "cops_abs env tf =
     map (\<lambda>q. pf_div (Fin (snd q)) (Fin (fst q))) (zip (q_dots_gen env tf) (q_dots_evap env tf))"

definition abs_output_flow :: "tf_row \<Rightarrow> flow" where
  "abs_output_flow tf =
     \<lparr>flow_investment = Some
        \<lparr>ep_costs = tf_periodical_costs tf,
         periodical_constraint_costs = None,
         minimum = tf_min_investment tf,
         maximum = Fin (tf_max_investment tf),
         existing = tf_existing tf,
         nonconvex = None,
         offset = None\<rparr>,
      flow_kwargs = [(''variable_costs'', Num (Fin (tf_var_output_costs tf))),
                     (''emission_factor'', Num (Fin (tf_var_output_constraint_costs tf)))]\<rparr>"

definition abs_transformer :: "env \<Rightarrow> tf_row \<Rightarrow> string \<Rightarrow> builder" where
  "abs_transformer env tf temp st =
     (case lookup (st_busd st) (tf_input tf) of
        Inl e \<Rightarrow> raise e st
      | Inr ib \<Rightarrow>
     (case lookup (st_busd st) (tf_label tf @ temp @ ''_bus'') of
        Inl e \<Rightarrow> raise e st
      | Inr hb \<Rightarrow>
     (case lookup (st_busd st) (tf_output tf) of
        Inl e \<Rightarrow> raise e st
      | Inr ob \<Rightarrow>
          create_transformer tf
            (py_dict [(ib, tf_input_flow tf), (hb, zero_cost_flow)])
            (py_dict [(ob, abs_output_flow tf)])
            (py_dict [(ob, Series (cops_abs env tf)),
                      (ib, Num (Fin (tf_abs_el_conversion_factor tf)))])
            st)))"

definition absorption_heat_transformer :: "env \<Rightarrow> tf_row \<Rightarrow> builder" where
  "absorption_heat_transformer env tf st =
     (case mode_temp tf of
        Inl e \<Rightarrow> raise e st
      | Inr temp \<Rightarrow>
          (let bus_label = tf_label tf @ temp @ ''_bus'';
               source_label = tf_label tf @ temp @ ''_source'';
               b = Bus bus_label;
               st1 = st\<lparr>st_nodes := st_nodes st @ [NBus b],
                        st_busd := (st_busd st)(bus_label \<mapsto> b)\<rparr>
           in and_then
                (append_node
                   (Source source_label
                      (py_dict [(b, \<lparr>flow_investment = None,
                         flow_kwargs =
                           [(''variable_costs'', Num (Fin (tf_var_input_costs tf)))]\<rparr>)])))
                (abs_transformer env tf temp) st1))"

text \<open>
  The dispatch of \<^verbatim>\<open>Transformers.__init__\<close>; the three branches that only log a
  warning create nothing. The instance works on the dictionary \<open>busd\<close> itself, not on a
  copy: the result carries the dictionary as the call leaves it.
\<close>

definition transformer_step :: "env \<Rightarrow> tf_row \<Rightarrow> builder" where
  "transformer_step env t st =
     (if truthy (tf_active t) then
        (if tf_type t = ''GenericTransformer'' then generic_transformer t st
         else if tf_type t = ''compression_heat_transformer''
           then compression_heat_transformer env t st
         else if tf_type t = ''ExtractionTurbineCHP'' then (None, st)
         else if tf_type t = ''GenericCHP'' then genericchp_transformer env t st
         else if tf_type t = ''OffsetTransformer'' then (None, st)
         else if tf_type t = ''absorption_heat_transformer''
           then absorption_heat_transformer env t st
         else (None, st))
      else (None, st))"

definition Transformers_init ::
  "env \<Rightarrow> tf_row list \<Rightarrow> node list \<Rightarrow> busd \<Rightarrow> error option \<times> node list \<times> busd" where
  "Transformers_init env rows nodes busd =
     (case for_rows (transformer_step env) rows \<lparr>st_nodes = [], st_busd = busd\<rparr> of
        (Some e, st) \<Rightarrow> (Some e, nodes, st_busd st)
      | (None, st) \<Rightarrow> (None, append_all (st_nodes st) nodes, st_busd st))"

section \<open>The class \<^verbatim>\<open>Storages\<close>\<close>

definition storage_investment :: "storage_row \<Rightarrow> investment" where
  "storage_investment s =
     \<lparr>ep_costs = s_periodical_costs s,
      periodical_constraint_costs = Some (s_periodical_constraint_costs s),
      minimum = s_min_investment s,
      maximum = Fin (s_max_investment s),
      existing = s_existing s,
      nonconvex = Some (s_nonconvex s = Fin 1),
      offset = Some (s_fix_investment_costs s)\<rparr>"

definition storage_input_flow :: "storage_row \<Rightarrow> flow" where
  "storage_input_flow s =
     \<lparr>flow_investment = None,
      flow_kwargs = [(''variable_costs'', Num (Fin (s_var_input_costs s))),
                     (''emission_factor'', Num (Fin (s_var_input_constraint_costs s)))]\<rparr>"

definition storage_output_flow :: "storage_row \<Rightarrow> flow" where
  "storage_output_flow s =
     \<lparr>flow_investment = None,
      flow_kwargs = [(''variable_costs'', Num (Fin (s_var_output_costs s))),
                     (''emission_factor'', Num (Fin (s_var_output_constraint_costs s)))]\<rparr>"

definition storage_node :: "storage_row \<Rightarrow> kwargs \<Rightarrow> builder" where
  "storage_node s kw st =
     (case lookup (st_busd st) (s_bus s) of
        Inl e \<Rightarrow> raise e st
      | Inr b \<Rightarrow>
          append_node
            (GenericStorage (s_label s)
               (py_dict [(b, storage_input_flow s)])
               (py_dict [(b, storage_output_flow s)])
               kw (storage_investment s))
            st)"

definition generic_storage :: "storage_row \<Rightarrow> builder" where
  "generic_storage s =
     storage_node s
       [(''loss_rate'', Num (Fin (s_capacity_loss s))),
        (''inflow_conversion_factor'', Num (Fin (s_efficiency_inflow s))),
        (''outflow_conversion_factor'', Num (Fin (s_efficiency_outflow s))),
        (''invest_relation_input_capacity'', Num (Fin (s_input_capacity_ratio s))),
        (''invest_relation_output_capacity'', Num (Fin (s_output_capacity_ratio s)))]"

definition stratified_thermal_storage :: "env \<Rightarrow> storage_row \<Rightarrow> builder" where
  "stratified_thermal_storage env s =
     (let losses = calculate_losses env s in
      storage_node s
        [(''min_storage_level'', Num (Fin (s_capacity_min s))),
         (''max_storage_level'', Num (Fin (s_capacity_max s))),
         (''loss_rate'', fst losses),
         (''fixed_losses_relative'', fst (snd losses)),
         (''fixed_losses_absolute'', snd (snd losses)),
         (''inflow_conversion_factor'', Num (Fin (s_efficiency_inflow s))),
         (''outflow_conversion_factor'', Num (Fin (s_efficiency_outflow s))),
         (''invest_relation_input_capacity'', Num (Fin (s_input_capacity_ratio s))),
         (''invest_relation_output_capacity'', Num (Fin (s_output_capacity_ratio s)))])"

definition storage_step :: "env \<Rightarrow> storage_row \<Rightarrow> builder" where
  "storage_step env s st =
     (if truthy (s_active s) then
        and_then
          (\<lambda>st. if s_type s = ''Generic'' then generic_storage s st else (None, st))
          (\<lambda>st. if s_type s = ''Stratified''
                 then stratified_thermal_storage env s st else (None, st))
          st
      else (None, st))"

definition Storages_init ::
  "env \<Rightarrow> storage_row list \<Rightarrow> node list \<Rightarrow> busd \<Rightarrow> error option \<times> node list" where
  "Storages_init env rows nodes busd =
     (case for_rows (storage_step env) rows \<lparr>st_nodes = [], st_busd = busd\<rparr> of
        (Some e, st) \<Rightarrow> (Some e, nodes)
      | (None, st) \<Rightarrow> (None, append_all (st_nodes st) nodes))"

section \<open>The class \<^verbatim>\<open>Links\<close>\<close>

text \<open>
  \<^verbatim>\<open>Links.__init__\<close> appends every link to the shared list \<open>nodes\<close> at once:
  the state of the loop is that list, with the dictionary of the buses beside it. The two
  output flows are built from the same expressions.
\<close>

definition link_ep_costs :: "link_row \<Rightarrow> error + real" where
  "link_ep_costs link =
     (if link_directed link = ''directed'' then Inr (link_periodical_costs link)
      else if link_directed link = ''undirected'' then Inr (link_periodical_costs link / 2)
      else Inl (SystemError ''Problem with periodical costs''))"

definition link_output_flow :: "link_row \<Rightarrow> real \<Rightarrow> flow" where
  "link_output_flow link ep_costs_v =
     \<lparr>flow_investment = Some
        \<lparr>ep_costs = ep_costs_v,
         periodical_constraint_costs = Some (link_periodical_constraint_costs link),
         minimum = link_min_investment link,
         maximum = Fin (link_max_investment link),
         existing = link_existing link,
         nonconvex = Some (link_nonconvex link = Fin 1),
         offset = Some (link_fix_investment_costs link)\<rparr>,
      flow_kwargs = [(''variable_costs'', Num (Fin (link_var_output_costs link))),
                     (''emission_factor'', Num (Fin (link_var_constraint_costs link)))]\<rparr>"

definition empty_flow :: flow where
  "empty_flow = \<lparr>flow_investment = None, flow_kwargs = []\<rparr>"

definition link_node :: "link_row \<Rightarrow> real \<Rightarrow> bus \<Rightarrow> bus \<Rightarrow> node" where
  "link_node link ep_costs_v b1 b2 =
     Link (link_label link)
       (py_dict [(b1, empty_flow), (b2, empty_flow)])
       (py_dict [(b2, link_output_flow link ep_costs_v),
                 (b1, link_output_flow link ep_costs_v)])
       (py_dict
          [((b1, b2), Num (Fin (link_efficiency link))),
           ((b2, b1), Num (Fin (if link_directed link = ''undirected''
                                then link_efficiency link else 0)))])"

definition link_step :: "link_row \<Rightarrow> builder" where
  "link_step link st =
     (if truthy (link_active link) then
        (case link_ep_costs link of
           Inl e \<Rightarrow> raise e st
         | Inr ep_costs_v \<Rightarrow>
        (case lookup (st_busd st) (link_bus_1 link) of
           Inl e \<Rightarrow> raise e st
         | Inr b1 \<Rightarrow>
        (case lookup (st_busd st) (link_bus_2 link) of
           Inl e \<Rightarrow> raise e st
         | Inr b2 \<Rightarrow> append_node (link_node link ep_costs_v b1 b2) st)))
      else (None, st))"

definition Links_init ::
  "link_row list \<Rightarrow> node list \<Rightarrow> busd \<Rightarrow> error option \<times> node list" where
  "Links_init rows nodes bus =
     (case for_rows link_step rows \<lparr>st_nodes = nodes, st_busd = bus\<rparr> of
        (err, st) \<Rightarrow> (err, st_nodes st))"

section \<open>Notions used in the statements\<close>

text \<open>A method that only appends to the list of nodes, whether it raises or not.\<close>

definition extends :: "builder \<Rightarrow> bool" where
  "extends f = (\<forall>st. \<exists>new. st_nodes (snd (f st)) = st_nodes st @ new)"

text \<open>The nodes that the loop of \<^verbatim>\<open>buses\<close> appends for one row.\<close>

definition bus_row_nodes :: "bus_row \<Rightarrow> node list" where
  "bus_row_nodes b =
     (if truthy (b_active b) then
        [NBus (Bus (b_label b))]
        @ (if truthy (b_excess b) then [excess_sink b (Bus (b_label b))] else [])
        @ (if truthy (b_shortage b) then [shortage_source b (Bus (b_label b))] else [])
      else [])"

fun is_sink :: "node \<Rightarrow> bool" where
  "is_sink (Sink l i) = True"
| "is_sink n = False"

fun is_source :: "node \<Rightarrow> bool" where
  "is_source (Source l out) = True"
| "is_source n = False"

text \<open>Example rows of the bus table: an active bus \<open>B\<close> with both shadow components.\<close>

definition bus_B :: bus_row where
  "bus_B = \<lparr>b_label = ''B'', b_active = Fin 1, b_excess = Fin 1, b_shortage = Fin 1,
            b_excess_costs = 0, b_excess_constraint_costs = 0,
            b_shortage_costs = 99, b_shortage_constraint_costs = 0\<rparr>"

definition bus_plain :: bus_row where
  "bus_plain = \<lparr>b_label = ''B'', b_active = Fin 1, b_excess = Fin 0, b_shortage = Fin 0,
            b_excess_costs = 0, b_excess_constraint_costs = 0,
            b_shortage_costs = 0, b_shortage_constraint_costs = 0\<rparr>"





definition st_AB :: bstate where
  "st_AB = \<lparr>st_nodes = [], st_busd = [''A'' \<mapsto> Bus ''A'', ''B'' \<mapsto> Bus ''B'']\<rparr>"




text \<open>
  An example environment and example rows of the source and the demand table, on the
  buses \<open>A\<close> and \<open>B\<close>.
\<close>

definition env0 :: env where
  "env0 =
     \<lparr>time_series = [''S.fix'' \<mapsto> [Fin 1, Fin 2]],
      temp_resolution = ''H'',
      periods = 2,
      pv_feedin = (\<lambda>so. [Fin (- 1), NaN, Fin 2, Fin (1 / 2)]),
      windpower_feedin = (\<lambda>so. [Fin (1 / 4)]),
      flat_plate_collectors_heat = (\<lambda>so. [Fin 1500]),
      csp_collector_heat = (\<lambda>so. [Fin 500]),
      heat_slp_profile = (\<lambda>de. [Fin 1]),
      elec_slp_profile = (\<lambda>de. [Fin 1]),
      loadcurve = (\<lambda>occ ts. if occ = Fin 5 then [100, 300] else []),
      temperature = [5, 10, 20],
      ground_temp = [8, 8, 8],
      groundwater_temp = [9, 9, 9],
      water_temp = [7, 7, 7],
      calc_cops = (\<lambda>th tl q thr fac m. map (\<lambda>t. 3) th),
      q_dots_evap = (\<lambda>tf. [1]),
      q_dots_gen = (\<lambda>tf. [2]),
      calculate_losses = (\<lambda>s. (Num (Fin 0), Num (Fin 0), Num (Fin 0)))\<rparr>"

definition so_ts :: source_row where
  "so_ts =
     \<lparr>so_label = ''S'', so_active = Fin 1, so_fixed = Fin 1, so_technology = ''timeseries'',
      so_output = ''B'', so_input = ''x'', so_periodical_costs = 1,
      so_periodical_constraint_costs = 0, so_min_investment = 0, so_max_investment = 100,
      so_existing = 0, so_nonconvex = Fin 0, so_fix_investment_costs = 0,
      so_variable_costs = 0, so_variable_constraint_costs = 0, so_conversion_factor = 1,
      so_peripheral_losses = 0, so_electric_consumption = 0\<rparr>"



definition so_geo :: source_row where
  "so_geo = so_ts\<lparr>so_technology := ''geothermal'', so_fixed := Fin 2\<rparr>"





section \<open>Basic facts about the loops\<close>

lemma append_all_fold:
  "n \<le> length xs \<Longrightarrow> fold (\<lambda>i ns. ns @ [xs ! i]) [0..<n] nodes = nodes @ take n xs"
proof (induction n)
  case 0
  then show ?case by simp
next
  case (Suc n)
  then have "n < length xs" by simp
  then have "take (Suc n) xs = take n xs @ [xs ! n]"
    by (simp add: take_Suc_conv_app_nth)
  with Suc show ?case by simp
qed

lemma append_all_eq: "append_all xs nodes = nodes @ xs"
  by (simp add: append_all_def append_all_fold)

lemma for_rows_append:
  "for_rows body (pre @ rs) st =
     (case for_rows body pre st of
        (Some e, st1) \<Rightarrow> (Some e, st1)
      | (None, st1) \<Rightarrow> for_rows body rs st1)"
  by (induction pre arbitrary: st) (auto split: prod.splits option.splits)

lemma extendsI: "(\<And>st. \<exists>new. st_nodes (snd (f st)) = st_nodes st @ new) \<Longrightarrow> extends f"
  by (simp add: extends_def)

lemma extendsD: "extends f \<Longrightarrow> \<exists>new. st_nodes (snd (f st)) = st_nodes st @ new"
  by (simp add: extends_def)

lemma extends_raise: "extends (raise e)"
  by (simp add: extends_def raise_def)

lemma extends_append_node: "extends (append_node n)"
  by (simp add: extends_def append_node_def)

lemma extends_skip: "extends (\<lambda>st. (None, st))"
  by (simp add: extends_def)

lemma extends_and_then:
  assumes "extends f" and "extends g"
  shows "extends (and_then f g)"
proof (rule extendsI)
  fix st
  obtain r st1 where f: "f st = (r, st1)" by (cases "f st")
  from extendsD[OF assms(1), of st] f obtain n1 where n1: "st_nodes st1 = st_nodes st @ n1"
    by auto
  show "\<exists>new. st_nodes (snd (and_then f g st)) = st_nodes st @ new"
  proof (cases r)
    case None
    from extendsD[OF assms(2), of st1] obtain n2
      where "st_nodes (snd (g st1)) = st_nodes st1 @ n2" by auto
    with None f n1 show ?thesis by (simp add: and_then_def)
  next
    case (Some e)
    with f n1 show ?thesis by (simp add: and_then_def)
  qed
qed

lemma extends_for_rows:
  assumes "\<And>r. extends (body r)"
  shows "extends (for_rows body rs)"
proof (rule extendsI)
  fix st
  show "\<exists>new. st_nodes (snd (for_rows body rs st)) = st_nodes st @ new"
  proof (induction rs arbitrary: st)
    case Nil
    then show ?case by simp
  next
    case (Cons r rs)
    obtain e st1 where b: "body r st = (e, st1)" by (cases "body r st")
    from extendsD[OF assms, of r st] b obtain n1 where n1: "st_nodes st1 = st_nodes st @ n1"
      by auto
    show ?case
    proof (cases e)
      case None
      from Cons.IH[of st1] obtain n2
        where "st_nodes (snd (for_rows body rs st1)) = st_nodes st1 @ n2" by auto
      with None b n1 show ?thesis by simp
    next
      case (Some x)
      with b n1 show ?thesis by simp
    qed
  qed
qed

section \<open>The bus table\<close>

lemma py_dict_single: "py_dict [(k, v)] = [(k, v)]"
  by (simp add: py_dict_def)


lemma bus_step_nodes: "fst (bus_step b (nodes, busd)) = nodes @ bus_row_nodes b"
  by (simp add: bus_step_def bus_row_nodes_def Let_def)

lemma bus_step_busd:
  "snd (bus_step b (nodes, busd)) =
     (if truthy (b_active b) then busd(b_label b \<mapsto> Bus (b_label b)) else busd)"
  by (simp add: bus_step_def Let_def)

lemma fold_bus_step_nodes:
  "fst (fold bus_step rows (nodes, busd)) = nodes @ concat (map bus_row_nodes rows)"
proof (induction rows arbitrary: nodes busd)
  case Nil
  then show ?case by simp
next
  case (Cons b rows)
  obtain n1 d1 where s: "bus_step b (nodes, busd) = (n1, d1)"
    by (cases "bus_step b (nodes, busd)")
  from s bus_step_nodes[of b nodes busd] have "n1 = nodes @ bus_row_nodes b" by simp
  with Cons.IH[of n1 d1] s show ?case by simp
qed

lemma buses_nodes: "fst (buses rows nodes) = nodes @ concat (map bus_row_nodes rows)"
  by (simp add: buses_def fold_bus_step_nodes)

lemma buses_snoc_busd:
  "snd (buses (pre @ [b]) nodes) =
     (if truthy (b_active b) then (snd (buses pre nodes))(b_label b \<mapsto> Bus (b_label b))
      else snd (buses pre nodes))"
proof -
  obtain n1 d1 where s: "buses pre nodes = (n1, d1)" by (cases "buses pre nodes")
  then have "buses (pre @ [b]) nodes = bus_step b (n1, d1)"
    by (simp add: buses_def)
  with s bus_step_busd[of b n1 d1] show ?thesis by simp
qed

lemma bus_row_nodes_buses:
  "filter is_bus (bus_row_nodes b) = (if truthy (b_active b) then [NBus (Bus (b_label b))] else [])"
  by (simp add: bus_row_nodes_def excess_sink_def shortage_source_def)

lemma bus_row_nodes_sinks:
  "filter is_sink (bus_row_nodes b) =
     (if truthy (b_active b) \<and> truthy (b_excess b) then [excess_sink b (Bus (b_label b))] else [])"
  by (simp add: bus_row_nodes_def excess_sink_def shortage_source_def)

lemma bus_row_nodes_sources:
  "filter is_source (bus_row_nodes b) =
     (if truthy (b_active b) \<and> truthy (b_shortage b)
      then [shortage_source b (Bus (b_label b))] else [])"
  by (simp add: bus_row_nodes_def excess_sink_def shortage_source_def)

lemma bus_row_nodes_length:
  "length (bus_row_nodes b) =
     length (filter is_bus (bus_row_nodes b)) + length (filter is_sink (bus_row_nodes b))
     + length (filter is_source (bus_row_nodes b))"
  by (simp add: bus_row_nodes_def excess_sink_def shortage_source_def)

text \<open>
  Claim C2. Whatever rows came before, the row \<open>b\<close> of the bus table adds to the node
  list: if it is active, exactly one bus, with the label of the row, which the dictionary
  then holds under that label; exactly one sink, labelled \<open>label_excess\<close> and with its
  single input flow on that bus, if the excess flag is set, and no sink otherwise; exactly
  one source, labelled \<open>label_shortage\<close> and with its single output flow on that bus, if
  the shortage flag is set, and no source otherwise; and nothing else. If the row is not
  active it adds nothing and leaves the dictionary as it was.
\<close>

theorem buses_row_created:
  "\<exists>new. fst (buses (pre @ [b]) nodes) = fst (buses pre nodes) @ new \<and>
     (if truthy (b_active b) then
        filter is_bus new = [NBus (Bus (b_label b))]
        \<and> snd (buses (pre @ [b]) nodes) (b_label b) = Some (Bus (b_label b))
        \<and> filter is_sink new =
            (if truthy (b_excess b) then
               [Sink (b_label b @ ''_excess'')
                  [(Bus (b_label b), \<lparr>flow_investment = None,
                     flow_kwargs =
                       [(''variable_costs'', Num (Fin (b_excess_costs b))),
                        (''emission_factor'', Num (Fin (b_excess_constraint_costs b)))]\<rparr>)]]
             else [])
        \<and> filter is_source new =
            (if truthy (b_shortage b) then
               [Source (b_label b @ ''_shortage'')
                  [(Bus (b_label b), \<lparr>flow_investment = None,
                     flow_kwargs =
                       [(''variable_costs'', Num (Fin (b_shortage_costs b))),
                        (''emission_factor'', Num (Fin (b_shortage_constraint_costs b)))]\<rparr>)]]
             else [])
        \<and> length new = length (filter is_bus new) + length (filter is_sink new)
                        + length (filter is_source new)
      else new = [] \<and> snd (buses (pre @ [b]) nodes) = snd (buses pre nodes))"
proof -
  have n: "fst (buses (pre @ [b]) nodes) = fst (buses pre nodes) @ bus_row_nodes b"
    by (simp add: buses_nodes)
  show ?thesis
  proof (cases "truthy (b_active b)")
    case True
    have "filter is_bus (bus_row_nodes b) = [NBus (Bus (b_label b))]"
      using True by (simp add: bus_row_nodes_buses)
    moreover have "snd (buses (pre @ [b]) nodes) (b_label b) = Some (Bus (b_label b))"
      using True by (simp add: buses_snoc_busd)
    moreover have "filter is_sink (bus_row_nodes b) =
        (if truthy (b_excess b) then
           [Sink (b_label b @ ''_excess'')
              [(Bus (b_label b), \<lparr>flow_investment = None,
                 flow_kwargs =
                   [(''variable_costs'', Num (Fin (b_excess_costs b))),
                    (''emission_factor'', Num (Fin (b_excess_constraint_costs b)))]\<rparr>)]]
         else [])"
      using True by (simp add: bus_row_nodes_sinks excess_sink_def py_dict_single)
    moreover have "filter is_source (bus_row_nodes b) =
        (if truthy (b_shortage b) then
           [Source (b_label b @ ''_shortage'')
              [(Bus (b_label b), \<lparr>flow_investment = None,
                 flow_kwargs =
                   [(''variable_costs'', Num (Fin (b_shortage_costs b))),
                    (''emission_factor'', Num (Fin (b_shortage_constraint_costs b)))]\<rparr>)]]
         else [])"
      using True by (simp add: bus_row_nodes_sources shortage_source_def py_dict_single)
    ultimately show ?thesis
      using True n bus_row_nodes_length[of b] by (intro exI[of _ "bus_row_nodes b"]) simp
  next
    case False
    then have "bus_row_nodes b = []" by (simp add: bus_row_nodes_def)
    with False n show ?thesis
      by (intro exI[of _ "[]"]) (simp add: buses_snoc_busd)
  qed
qed

theorem buses_row_created_witness:
  "fst (buses ([bus_plain] @ [bus_B]) []) =
     fst (buses [bus_plain] []) @
       [NBus (Bus ''B''),
        Sink ''B_excess'' [(Bus ''B'', \<lparr>flow_investment = None,
           flow_kwargs = [(''variable_costs'', Num (Fin 0)), (''emission_factor'', Num (Fin 0))]\<rparr>)],
        Source ''B_shortage'' [(Bus ''B'', \<lparr>flow_investment = None,
           flow_kwargs = [(''variable_costs'', Num (Fin 99)), (''emission_factor'', Num (Fin 0))]\<rparr>)]]"
proof -
  from buses_row_created[of "[bus_plain]" bus_B "[]"]
  obtain new where
    e: "fst (buses ([bus_plain] @ [bus_B]) []) = fst (buses [bus_plain] []) @ new" by blast
  have "fst (buses ([bus_plain] @ [bus_B]) []) =
      [NBus (Bus ''B''), NBus (Bus ''B''),
        Sink ''B_excess'' [(Bus ''B'', \<lparr>flow_investment = None,
           flow_kwargs = [(''variable_costs'', Num (Fin 0)), (''emission_factor'', Num (Fin 0))]\<rparr>)],
        Source ''B_shortage'' [(Bus ''B'', \<lparr>flow_investment = None,
           flow_kwargs = [(''variable_costs'', Num (Fin 99)), (''emission_factor'', Num (Fin 0))]\<rparr>)]]"
    by (simp add: buses_def bus_step_def bus_B_def bus_plain_def truthy_def Let_def
        excess_sink_def shortage_source_def py_dict_single)
  moreover have "fst (buses [bus_plain] []) = [NBus (Bus ''B'')]"
    by (simp add: buses_def bus_step_def bus_plain_def truthy_def Let_def)
  ultimately show ?thesis using e by simp
qed

lemma fold_bus_step_busd:
  "snd (fold bus_step rows (nodes, busd)) l =
     (if \<exists>r \<in> set rows. truthy (b_active r) \<and> b_label r = l then Some (Bus l) else busd l)"
proof (induction rows arbitrary: nodes busd)
  case Nil
  then show ?case by simp
next
  case (Cons b rows)
  obtain n1 d1 where s: "bus_step b (nodes, busd) = (n1, d1)"
    by (cases "bus_step b (nodes, busd)")
  from s bus_step_busd[of b nodes busd]
  have d1: "d1 = (if truthy (b_active b) then busd(b_label b \<mapsto> Bus (b_label b)) else busd)"
    by simp
  have "snd (fold bus_step (b # rows) (nodes, busd)) l = snd (fold bus_step rows (n1, d1)) l"
    using s by simp
  also have "\<dots> = (if \<exists>r \<in> set rows. truthy (b_active r) \<and> b_label r = l
                    then Some (Bus l) else d1 l)"
    by (rule Cons.IH)
  also have "\<dots> = (if \<exists>r \<in> set (b # rows). truthy (b_active r) \<and> b_label r = l
                    then Some (Bus l) else busd l)"
    using d1 by auto
  finally show ?case .
qed

lemma bus_row_nodes_active:
  "truthy (b_active r) \<Longrightarrow> NBus (Bus (b_label r)) \<in> set (bus_row_nodes r)"
  by (simp add: bus_row_nodes_def)

text \<open>
  Claim C8, as the code has it. The loop of \<^verbatim>\<open>buses\<close> has no check of the label
  and no \<^verbatim>\<open>raise\<close>. When an active row \<open>b\<close> carries the label of an active row
  \<open>r\<close> before it, the list holds a bus with that label and the dictionary holds the label
  already; the row \<open>b\<close> still appends a bus with the same label to the list, and the
  dictionary holds the label afterwards.
\<close>

theorem buses_collision_registers:
  assumes "r \<in> set pre" and "truthy (b_active r)" and "b_label r = b_label b"
    and "truthy (b_active b)"
  shows "NBus (Bus (b_label b)) \<in> set (fst (buses pre nodes))
       \<and> snd (buses pre nodes) (b_label b) = Some (Bus (b_label b))
       \<and> (\<exists>new. fst (buses (pre @ [b]) nodes) =
                  fst (buses pre nodes) @ NBus (Bus (b_label b)) # new)
       \<and> snd (buses (pre @ [b]) nodes) (b_label b) = Some (Bus (b_label b))"
proof -
  have "NBus (Bus (b_label r)) \<in> set (concat (map bus_row_nodes pre))"
    using assms(1,2) bus_row_nodes_active[of r] by auto
  then have a: "NBus (Bus (b_label b)) \<in> set (fst (buses pre nodes))"
    using assms(3) by (simp add: buses_nodes)
  have b: "snd (buses pre nodes) (b_label b) = Some (Bus (b_label b))"
    unfolding buses_def using assms(1,2,3) by (subst fold_bus_step_busd) auto
  have t: "bus_row_nodes b = NBus (Bus (b_label b)) # tl (bus_row_nodes b)"
    using assms(4) by (simp add: bus_row_nodes_def)
  have "fst (buses (pre @ [b]) nodes) = fst (buses pre nodes) @ bus_row_nodes b"
    by (simp add: buses_nodes)
  with t have "fst (buses (pre @ [b]) nodes) =
      fst (buses pre nodes) @ NBus (Bus (b_label b)) # tl (bus_row_nodes b)"
    by simp
  then have c: "\<exists>new. fst (buses (pre @ [b]) nodes) =
      fst (buses pre nodes) @ NBus (Bus (b_label b)) # new"
    by (rule exI)
  have d: "snd (buses (pre @ [b]) nodes) (b_label b) = Some (Bus (b_label b))"
    using assms(4) by (simp add: buses_snoc_busd)
  from a b c d show ?thesis by blast
qed

theorem buses_collision_registers_witness:
  "bus_plain \<in> set [bus_plain] \<and> truthy (b_active bus_plain)
   \<and> b_label bus_plain = b_label bus_B \<and> truthy (b_active bus_B)
   \<and> NBus (Bus ''B'') \<in> set (fst (buses [bus_plain] []))
   \<and> snd (buses [bus_plain] []) ''B'' = Some (Bus ''B'')
   \<and> snd (buses ([bus_plain] @ [bus_B]) []) ''B'' = Some (Bus ''B'')"
proof -
  have h: "bus_plain \<in> set [bus_plain]" "truthy (b_active bus_plain)"
    "b_label bus_plain = b_label bus_B" "truthy (b_active bus_B)"
    by (simp_all add: bus_plain_def bus_B_def truthy_def)
  have l: "b_label bus_B = ''B''" by (simp add: bus_B_def)
  from buses_collision_registers[OF h, of "[]"] h l show ?thesis by simp
qed

text \<open>
  Claim C8, as stated, fails: two active rows with the label \<open>B\<close> are both registered,
  without any error; the list holds two buses labelled \<open>B\<close>.
\<close>

theorem buses_collision_counterexample:
  "fst (buses [bus_plain, bus_plain] []) = [NBus (Bus ''B''), NBus (Bus ''B'')]
   \<and> snd (buses [bus_plain, bus_plain] []) ''B'' = Some (Bus ''B'')"
  by (simp add: buses_def bus_step_def bus_plain_def truthy_def Let_def)

section \<open>The shared list of nodes\<close>

lemma extends_link_step: "extends (link_step link)"
proof (rule extendsI)
  fix st
  show "\<exists>new. st_nodes (snd (link_step link st)) = st_nodes st @ new"
    by (simp add: link_step_def raise_def append_node_def split: sum.splits)
qed

lemma Links_init_nodes: "\<exists>new. snd (Links_init rows nodes bus) = nodes @ new"
proof -
  have "extends (for_rows link_step rows)"
    by (rule extends_for_rows) (rule extends_link_step)
  from extendsD[OF this, of "\<lparr>st_nodes = nodes, st_busd = bus\<rparr>"]
  show ?thesis by (auto simp add: Links_init_def split: prod.splits)
qed

lemma Sources_init_nodes: "\<exists>new. snd (Sources_init env rows nodes busd) = nodes @ new"
  by (simp add: Sources_init_def append_all_eq split: prod.splits option.splits)

lemma Sinks_init_nodes: "\<exists>new. snd (Sinks_init env rows busd nodes) = nodes @ new"
  by (simp add: Sinks_init_def append_all_eq split: prod.splits option.splits)

lemma Transformers_init_nodes:
  "\<exists>new. fst (snd (Transformers_init env rows nodes busd)) = nodes @ new"
  by (simp add: Transformers_init_def append_all_eq split: prod.splits option.splits)

lemma Storages_init_nodes: "\<exists>new. snd (Storages_init env rows nodes busd) = nodes @ new"
  by (simp add: Storages_init_def append_all_eq split: prod.splits option.splits)

text \<open>
  Claim C10. Each of the six builders leaves the shared list as the list it was given
  followed by new nodes: the nodes that were there keep their places, and whatever is
  created stands behind them. This holds for every exit of a builder, also when it raises.
\<close>

theorem builders_only_append:
  "(\<exists>new. fst (buses b_rows nodes) = nodes @ new)
   \<and> (\<exists>new. snd (Sources_init env so_rows nodes busd) = nodes @ new)
   \<and> (\<exists>new. snd (Sinks_init env de_rows busd nodes) = nodes @ new)
   \<and> (\<exists>new. fst (snd (Transformers_init env tf_rows nodes busd)) = nodes @ new)
   \<and> (\<exists>new. snd (Storages_init env s_rows nodes busd) = nodes @ new)
   \<and> (\<exists>new. snd (Links_init link_rows nodes busd) = nodes @ new)"
proof -
  have "\<exists>new. fst (buses b_rows nodes) = nodes @ new"
    by (simp add: buses_nodes)
  then show ?thesis
    using Sources_init_nodes[of env so_rows nodes busd]
      Sinks_init_nodes[of env de_rows busd nodes]
      Transformers_init_nodes[of env tf_rows nodes busd]
      Storages_init_nodes[of env s_rows nodes busd]
      Links_init_nodes[of link_rows nodes busd]
    by simp
qed

section \<open>Links\<close>






section \<open>Feed-in series\<close>


















section \<open>The profile arguments of sources and sinks\<close>











lemma timeseries_args_example:
  "timeseries_source_args env0 so_ts = Inr [(''fix'', Series [Fin 1, Fin 2])]"
  by (simp add: timeseries_source_args_def column_def env0_def so_ts_def)




section \<open>The dispatch of the sources and the fixed flag\<close>

lemma extends_create_source: "extends (create_source so args output)"
proof (rule extendsI)
  fix st
  show "\<exists>new. st_nodes (snd (create_source so args output st)) = st_nodes st @ new"
    by (simp add: create_source_def raise_def append_node_def Let_def split: sum.splits)
qed

lemma extends_with_args:
  assumes "\<And>args. extends (f args)"
  shows "extends (with_args a f)"
proof (rule extendsI)
  fix st
  show "\<exists>new. st_nodes (snd (with_args a f st)) = st_nodes st @ new"
  proof (cases a)
    case (Inl e)
    then show ?thesis by (simp add: with_args_def raise_def)
  next
    case (Inr args)
    with extendsD[OF assms, of args st] show ?thesis by (simp add: with_args_def)
  qed
qed

lemma extends_collector_transformer: "extends (collector_transformer so)"
proof (rule extendsI)
  fix st
  show "\<exists>new. st_nodes (snd (collector_transformer so st)) = st_nodes st @ new"
    by (simp add: collector_transformer_def raise_def append_node_def split: sum.splits)
qed

lemma solar_heat_source_bus:
  "\<exists>rest. st_nodes (snd (solar_heat_source env so st)) =
          st_nodes st @ NBus (Bus (so_label so @ ''_bus'')) # rest"
proof -
  let ?st1 = "st\<lparr>st_nodes := st_nodes st @ [NBus (Bus (so_label so @ ''_bus''))],
                 st_busd := (st_busd st)(so_label so @ ''_bus'' \<mapsto> Bus (so_label so @ ''_bus''))\<rparr>"
  let ?m = "and_then
      (with_args (solar_heat_source_args env so)
         (\<lambda>args. create_source so args (Some (Bus (so_label so @ ''_bus'')))))
      (collector_transformer so)"
  have "extends ?m"
    by (intro extends_and_then extends_with_args extends_create_source
        extends_collector_transformer)
  from extendsD[OF this, of ?st1] obtain new
    where "st_nodes (snd (?m ?st1)) = st_nodes ?st1 @ new" by blast
  then have "st_nodes (snd (solar_heat_source env so st)) =
      st_nodes st @ NBus (Bus (so_label so @ ''_bus'')) # new"
    by (simp add: solar_heat_source_def Let_def)
  then show ?thesis by blast
qed

text \<open>
  Claim C9. An active row whose technology is none of \<open>other\<close>, \<open>photovoltaic\<close>,
  \<open>windpower\<close> and \<open>timeseries\<close> is handed to \<^verbatim>\<open>solar_heat_source\<close>, whatever
  the technology is; so the collector bus \<open>label_bus\<close> is the first node the step
  appends.
\<close>

theorem source_dispatch_fallthrough:
  assumes "truthy (so_active so)"
    and "so_technology so \<notin> {''other'', ''photovoltaic'', ''windpower'', ''timeseries''}"
  shows "source_step env so st = solar_heat_source env so st
       \<and> (\<exists>rest. st_nodes (snd (source_step env so st)) =
                   st_nodes st @ NBus (Bus (so_label so @ ''_bus'')) # rest)"
proof -
  have "source_step env so st = solar_heat_source env so st"
    using assms by (simp add: source_step_def str_truthy_def)
  with solar_heat_source_bus[of env so st] show ?thesis by simp
qed

theorem source_dispatch_fallthrough_witness:
  "truthy (so_active so_geo)
   \<and> so_technology so_geo \<notin> {''other'', ''photovoltaic'', ''windpower'', ''timeseries''}
   \<and> so_technology so_geo = ''geothermal''
   \<and> source_step env0 so_geo st_AB = solar_heat_source env0 so_geo st_AB
   \<and> (\<exists>rest. st_nodes (snd (source_step env0 so_geo st_AB)) =
               st_nodes st_AB @ NBus (Bus ''S_bus'') # rest)"
proof -
  have h: "truthy (so_active so_geo)"
    "so_technology so_geo \<notin> {''other'', ''photovoltaic'', ''windpower'', ''timeseries''}"
    by (simp_all add: so_geo_def so_ts_def truthy_def)
  have t: "so_technology so_geo = ''geothermal''" "so_label so_geo = ''S''"
    by (simp_all add: so_geo_def so_ts_def)
  note c = source_dispatch_fallthrough[OF h, of env0 st_AB]
  from c have e: "source_step env0 so_geo st_AB = solar_heat_source env0 so_geo st_AB"
    by (rule conjunct1)
  from c have "\<exists>rest. st_nodes (snd (source_step env0 so_geo st_AB)) =
               st_nodes st_AB @ NBus (Bus (so_label so_geo @ ''_bus'')) # rest"
    by (rule conjunct2)
  then have r: "\<exists>rest. st_nodes (snd (source_step env0 so_geo st_AB)) =
               st_nodes st_AB @ NBus (Bus ''S_bus'') # rest"
    by (simp only: t append_Cons append_Nil)
  from h t e r show ?thesis by blast
qed

lemma with_args_error: "with_args (Inl e) f st = (Some e, st)"
  by (simp add: with_args_def raise_def)

lemma source_step_fixed_error:
  assumes "truthy (so_active so)" and "so_technology so \<noteq> ''other''"
    and "so_fixed so \<noteq> Fin 1" and "so_fixed so \<noteq> Fin 0"
  shows "\<exists>st'. source_step env so st = (Some (fixed_error (so_label so)), st')
           \<and> filter is_source (st_nodes st') = filter is_source (st_nodes st)"
proof -
  have a: "timeseries_source_args env so = Inl (fixed_error (so_label so))"
    "pv_source_args env so = Inl (fixed_error (so_label so))"
    "windpower_source_args env so = Inl (fixed_error (so_label so))"
    "solar_heat_source_args env so = Inl (fixed_error (so_label so))"
    using assms(3,4)
    by (simp_all add: timeseries_source_args_def pv_source_args_def windpower_source_args_def
        solar_heat_source_args_def Let_def)
  show ?thesis
    using assms(1,2) a
    by (simp add: source_step_def str_truthy_def timeseries_source_def pv_source_def
        windpower_source_def solar_heat_source_def with_args_error and_then_def Let_def)
qed

text \<open>
  Claim C4. Let the rows before \<open>so\<close> be built without an exception. If \<open>so\<close> is active,
  of any technology but the commodity source (\<open>other\<close>), and its fixed flag is neither 0
  nor 1, then \<^verbatim>\<open>Sources.__init__\<close> ends with the exception
  \<^verbatim>\<open>SystemError(label + " Error in fixed attribute")\<close>, the kind of error the
  specification names ConfigurationError; the rows after \<open>so\<close> are not built and
  the shared list of nodes is as it was. The step for \<open>so\<close> itself raises this exception
  and appends no source to the list of the instance.
\<close>

theorem fixed_flag_error:
  assumes "truthy (so_active so)" and "so_technology so \<noteq> ''other''"
    and "so_fixed so \<noteq> Fin 1" and "so_fixed so \<noteq> Fin 0"
    and "fst (for_rows (source_step env) pre \<lparr>st_nodes = [], st_busd = busd\<rparr>) = None"
  shows "Sources_init env (pre @ so # post) nodes busd =
           (Some (SystemError (so_label so @ '' Error in fixed attribute'')), nodes)
       \<and> (\<exists>st'. source_step env so
                   (snd (for_rows (source_step env) pre \<lparr>st_nodes = [], st_busd = busd\<rparr>)) =
                 (Some (SystemError (so_label so @ '' Error in fixed attribute'')), st')
              \<and> filter is_source (st_nodes st') =
                filter is_source
                  (st_nodes (snd (for_rows (source_step env) pre
                     \<lparr>st_nodes = [], st_busd = busd\<rparr>))))"
proof -
  let ?st0 = "\<lparr>st_nodes = [], st_busd = busd\<rparr>"
  obtain st where p: "for_rows (source_step env) pre ?st0 = (None, st)"
    using assms(5) by (cases "for_rows (source_step env) pre ?st0") simp
  from source_step_fixed_error[OF assms(1-4), of env st]
  obtain st' where s: "source_step env so st = (Some (fixed_error (so_label so)), st')"
    and n: "filter is_source (st_nodes st') = filter is_source (st_nodes st)"
    by blast
  have "for_rows (source_step env) (pre @ so # post) ?st0 = (Some (fixed_error (so_label so)), st')"
    using p s by (simp add: for_rows_append)
  then have "Sources_init env (pre @ so # post) nodes busd =
      (Some (fixed_error (so_label so)), nodes)"
    by (simp add: Sources_init_def)
  with p s n show ?thesis by (simp add: fixed_error_def)
qed

lemma sources_example_prefix:
  "fst (for_rows (source_step env0) [so_ts] \<lparr>st_nodes = [], st_busd = st_busd st_AB\<rparr>) = None"
proof -
  let ?st = "\<lparr>st_nodes = [], st_busd = st_busd st_AB\<rparr>"
  have a: "truthy (so_active so_ts)" "so_technology so_ts = ''timeseries''"
    by (simp_all add: so_ts_def truthy_def)
  have "source_step env0 so_ts ?st =
      create_source so_ts [(''fix'', Series [Fin 1, Fin 2])] None ?st"
    using a by (simp add: source_step_def timeseries_source_def with_args_def
        timeseries_args_example)
  moreover have "st_busd st_AB (so_output so_ts) = Some (Bus ''B'')"
    by (simp add: so_ts_def st_AB_def)
  ultimately have "fst (source_step env0 so_ts ?st) = None"
    by (simp add: create_source_def lookup_def append_node_def Let_def)
  then show ?thesis
    by (cases "source_step env0 so_ts ?st") (simp split: option.splits)
qed

theorem fixed_flag_error_witness:
  "Sources_init env0 ([so_ts] @ so_geo # [so_ts]) [NBus (Bus ''A''), NBus (Bus ''B'')]
      (st_busd st_AB) =
     (Some (SystemError ''S Error in fixed attribute''), [NBus (Bus ''A''), NBus (Bus ''B'')])"
proof -
  have h: "truthy (so_active so_geo)" "so_technology so_geo \<noteq> ''other''"
    "so_fixed so_geo \<noteq> Fin 1" "so_fixed so_geo \<noteq> Fin 0"
    by (simp_all add: so_geo_def so_ts_def truthy_def)
  have l: "so_label so_geo = ''S''" by (simp add: so_geo_def so_ts_def)
  from fixed_flag_error[OF h sources_example_prefix, of "[so_ts]"
      "[NBus (Bus ''A''), NBus (Bus ''B'')]"] l
  show ?thesis by simp
qed

section \<open>The richardson sink\<close>








section \<open>The compression chiller on ambient air\<close>








end
